theory Spec2Isabelle
  imports Complex_Main "HOL-Library.Char_ord" "HOL-Library.List_Lexorder"
begin

section \<open>Values and exceptions\<close>

text \<open>
  The data the service handles is decoded JSON. A Python \<open>dict\<close> is an association list
  standing for the dict whose value at a key is the first binding of that key
  (\<open>map_of\<close>) and whose keys are the distinct first components: every association list
  denotes a dict and every dict is denoted by one.

  Python's \<open>int\<close> and \<open>float\<close> are both read as exact rationals: the arithmetic of the
  calculator is the arithmetic of the reals on finite values, without the
  representation error, the overflow, the infinities and the NaN of IEEE doubles.
\<close>

datatype json =
    JNull
  | JBool bool
  | JNum rat
  | JStr string
  | JArr "json list"
  | JObj "(string \<times> json) list"

type_synonym pydict = "(string \<times> json) list"

text \<open>
  The exceptions that can travel through the code. \<open>HTTPException\<close> is FastAPI's: a
  subclass of \<open>Exception\<close> and not of \<open>ValueError\<close>. \<open>UpstreamError\<close> stands for whatever
  the HTTP client, \<open>raise_for_status\<close>, the JSON decoder or the file system raise.
\<close>

datatype py_exc =
    ValueError string
  | TypeError
  | KeyError
  | AttributeError
  | ZeroDivisionError
  | UpstreamError string
  | HTTPException nat string

definition dict_keys :: "pydict \<Rightarrow> string list" where
  "dict_keys d = remdups (map fst d)"

definition dict_get :: "pydict \<Rightarrow> string \<Rightarrow> json" where
  \<comment> \<open>\<open>d.get(k)\<close>: Python's \<open>None\<close> when the key is missing\<close>
  "dict_get d k = (case map_of d k of None \<Rightarrow> JNull | Some v \<Rightarrow> v)"

definition dict_getitem :: "pydict \<Rightarrow> string \<Rightarrow> py_exc + json" where
  \<comment> \<open>\<open>d[k]\<close>\<close>
  "dict_getitem d k = (case map_of d k of None \<Rightarrow> Inl KeyError | Some v \<Rightarrow> Inr v)"

fun as_number :: "json \<Rightarrow> py_exc + rat" where
  \<comment> \<open>the operand of \<open>-\<close>, \<open>/\<close> and \<open>round\<close>: numbers, and \<open>bool\<close> as the \<open>int\<close> it is\<close>
  "as_number (JNum r) = Inr r"
| "as_number (JBool b) = Inr (if b then 1 else 0)"
| "as_number _ = Inl TypeError"

definition py_div :: "rat \<Rightarrow> rat \<Rightarrow> py_exc + rat" where
  "py_div a b = (if b = 0 then Inl ZeroDivisionError else Inr (a / b))"

definition round_half_even :: "rat \<Rightarrow> int" where
  "round_half_even x =
     (let f = \<lfloor>x\<rfloor>; d = x - of_int f
      in if d < 1 / 2 then f
         else if 1 / 2 < d then f + 1
         else if even f then f else f + 1)"

definition py_round :: "rat \<Rightarrow> nat \<Rightarrow> rat" where
  \<comment> \<open>\<open>round(x, n)\<close>: to the nearest multiple of \<open>10 ^ -n\<close>, ties to the even one\<close>
  "py_round x n = of_int (round_half_even (x * 10 ^ n)) / 10 ^ n"

section \<open>calculator.py\<close>

record daily_metric =
  date :: string
  rate :: rat
  pct_change :: "rat option"

record totals =
  start_rate :: "rat option"
  end_rate :: "rat option"
  total_pct_change :: "rat option"
  mean_rate :: "rat option"

definition safe_pct_change :: "rat \<Rightarrow> rat \<Rightarrow> py_exc + rat option" where
  "safe_pct_change old_value new_value =
     (if old_value = 0 then Inr None
      else case py_div (new_value - old_value) old_value of
             Inl e \<Rightarrow> Inl e
           | Inr q \<Rightarrow> Inr (Some (q * 100)))"

definition current_rate :: "pydict \<Rightarrow> string \<Rightarrow> py_exc + json" where
  \<comment> \<open>lines 36 to 41: the value of the date, or its \<open>USD\<close> entry when it is a dict\<close>
  "current_rate rates d =
     (case dict_getitem rates d of
        Inl e \<Rightarrow> Inl e
      | Inr date_rates \<Rightarrow>
          (case date_rates of
             JObj b \<Rightarrow> Inr (dict_get b ''USD'')
           | v \<Rightarrow> Inr v))"

fun daily_loop ::
  "pydict \<Rightarrow> string list \<Rightarrow> rat option \<Rightarrow> daily_metric list \<Rightarrow> py_exc + daily_metric list"
where
  "daily_loop rates [] previous_rate daily_metrics = Inr daily_metrics"
| "daily_loop rates (d # ds) previous_rate daily_metrics =
     (case current_rate rates d of
        Inl e \<Rightarrow> Inl e
      | Inr cur \<Rightarrow>
          if cur = JNull then daily_loop rates ds previous_rate daily_metrics
          else
            (case as_number cur of
               Inl e \<Rightarrow> Inl e
             | Inr c \<Rightarrow>
                 (case (case previous_rate of
                          None \<Rightarrow> Inr None
                        | Some p \<Rightarrow> safe_pct_change p c) of
                    Inl e \<Rightarrow> Inl e
                  | Inr pct \<Rightarrow>
                      daily_loop rates ds (Some c)
                        (daily_metrics @
                           [\<lparr>date = d, rate = py_round c 6,
                             pct_change = map_option (\<lambda>p. py_round p 4) pct\<rparr>]))))"

definition calculate_daily_metrics :: "pydict \<Rightarrow> py_exc + daily_metric list" where
  "calculate_daily_metrics rates_data =
     (if rates_data = [] \<or> map_of rates_data ''rates'' = None then Inr []
      else case dict_getitem rates_data ''rates'' of
             Inl e \<Rightarrow> Inl e
           | Inr (JObj rates) \<Rightarrow> daily_loop rates (sort (dict_keys rates)) None []
           | Inr _ \<Rightarrow> Inl AttributeError)"

definition calculate_totals :: "daily_metric list \<Rightarrow> py_exc + totals" where
  "calculate_totals daily_metrics =
     (if daily_metrics = [] then
        Inr \<lparr>start_rate = None, end_rate = None, total_pct_change = None, mean_rate = None\<rparr>
      else
        let s = rate (hd daily_metrics);
            e = rate (last daily_metrics)
        in case safe_pct_change s e of
             Inl x \<Rightarrow> Inl x
           | Inr tpc \<Rightarrow>
               let rates = map rate daily_metrics
               in case py_div (sum_list rates) (of_nat (length rates)) of
                    Inl x \<Rightarrow> Inl x
                  | Inr mean \<Rightarrow>
                      Inr \<lparr>start_rate = Some (py_round s 6),
                           end_rate = Some (py_round e 6),
                           total_pct_change = map_option (\<lambda>p. py_round p 4) tpc,
                           mean_rate = Some (py_round mean 6)\<rparr>)"

datatype field =
    FStr string
  | FNone
  | FTotals totals
  | FDaily "daily_metric list"

definition opt_str :: "string option \<Rightarrow> field" where
  "opt_str s = (case s of None \<Rightarrow> FNone | Some v \<Rightarrow> FStr v)"

definition format_response ::
  "daily_metric list \<Rightarrow> totals \<Rightarrow> string \<Rightarrow> string option \<Rightarrow> string option
     \<Rightarrow> (string \<times> field) list"
where
  "format_response daily_metrics tot breakdown start_date end_date =
     (let response =
            [(''base'', FStr ''EUR''),
             (''symbol'', FStr ''USD''),
             (''start_date'', opt_str start_date),
             (''end_date'', opt_str end_date),
             (''breakdown'', FStr breakdown),
             (''totals'', FTotals tot)]
      in if breakdown = ''day'' then response @ [(''daily'', FDaily daily_metrics)]
         else response)"

section \<open>fx\_client.py\<close>

text \<open>
  Times are readings of \<open>datetime.now()\<close>, in microseconds; a \<open>timedelta\<close> is a number
  of microseconds.
\<close>

record FXCache =
  cache :: "string \<rightharpoonup> (int \<times> pydict)"
  ttl :: int

definition FXCache_init :: "int \<Rightarrow> FXCache" where
  "FXCache_init ttl_seconds = \<lparr>cache = Map.empty, ttl = ttl_seconds * 1000000\<rparr>"

definition FXCache_get :: "FXCache \<Rightarrow> string \<Rightarrow> int \<Rightarrow> pydict option \<times> FXCache" where
  "FXCache_get self key now =
     (case cache self key of
        None \<Rightarrow> (None, self)
      | Some (timestamp, v) \<Rightarrow>
          if now - timestamp < ttl self then (Some v, self)
          else (None, self\<lparr>cache := (cache self)(key := None)\<rparr>))"

definition FXCache_set :: "FXCache \<Rightarrow> string \<Rightarrow> pydict \<Rightarrow> int \<Rightarrow> FXCache" where
  "FXCache_set self key v now = self\<lparr>cache := (cache self)(key \<mapsto> (now, v))\<rparr>"

definition FXCache_clear :: "FXCache \<Rightarrow> FXCache" where
  "FXCache_clear self = self\<lparr>cache := Map.empty\<rparr>"

text \<open>
  What the world answers during one call of the client: the clock as \<open>FXCache.get\<close> and
  as \<open>FXCache.set\<close> read it, the outcome of the HTTP request (\<open>client.get\<close>,
  \<open>raise_for_status\<close> and \<open>response.json()\<close> together: the decoded body, or the
  exception of whichever failed), and the outcome of opening and decoding the
  fallback file. What the call does to the world is the list of its events.
\<close>

record env =
  now_get :: int
  now_set :: int
  upstream :: "py_exc + pydict"
  fallback_file :: "py_exc + pydict"

datatype event =
    UpstreamCall string "(string \<times> string) list"
  | FallbackLoad

definition BASE_URL :: string where
  "BASE_URL = ''https://api.frankfurter.dev/v1''"

definition load_fallback :: "env \<Rightarrow> py_exc + pydict" where
  "load_fallback w =
     (case fallback_file w of
        Inr d \<Rightarrow> Inr d
      | Inl e \<Rightarrow>
          Inl (ValueError
            (''Unable to fetch FX data from API and fallback file not available. '' @
             ''Please check your connection or ensure data/sample_fx.json exists.'')))"

definition fetch ::
  "env \<Rightarrow> FXCache \<Rightarrow> string \<Rightarrow> string \<Rightarrow> (string \<times> string) list
     \<Rightarrow> (py_exc + pydict) \<times> FXCache \<times> event list"
where
  \<comment> \<open>the \<open>try\<close> statement of \<open>get_range\<close> (lines 87 to 99) and of \<open>get_latest\<close> (123 to 135)\<close>
  "fetch w self cache_key url params =
     (case upstream w of
        Inr d \<Rightarrow> (Inr d, FXCache_set self cache_key d (now_set w), [UpstreamCall url params])
      | Inl e \<Rightarrow> (load_fallback w, self, [UpstreamCall url params, FallbackLoad]))"

definition range_key :: "string \<Rightarrow> string \<Rightarrow> string \<Rightarrow> string \<Rightarrow> string" where
  "range_key start_date end_date base symbols =
     ''range:'' @ start_date @ '':'' @ end_date @ '':'' @ base @ '':'' @ symbols"

definition latest_key :: "string \<Rightarrow> string \<Rightarrow> string" where
  "latest_key base symbols = ''latest:'' @ base @ '':'' @ symbols"

definition get_range ::
  "env \<Rightarrow> FXCache \<Rightarrow> string \<Rightarrow> string \<Rightarrow> string \<Rightarrow> string
     \<Rightarrow> (py_exc + pydict) \<times> FXCache \<times> event list"
where
  "get_range w self start_date end_date base symbols =
     (let cache_key = range_key start_date end_date base symbols;
          (cached, self1) = FXCache_get self cache_key (now_get w);
          url = BASE_URL @ ''/'' @ start_date @ ''..'' @ end_date;
          params = [(''base'', base), (''symbols'', symbols)]
      in case cached of
           Some d \<Rightarrow> if d \<noteq> [] then (Inr d, self1, []) else fetch w self1 cache_key url params
         | None \<Rightarrow> fetch w self1 cache_key url params)"

definition get_latest ::
  "env \<Rightarrow> FXCache \<Rightarrow> string \<Rightarrow> string \<Rightarrow> (py_exc + pydict) \<times> FXCache \<times> event list"
where
  "get_latest w self base symbols =
     (let cache_key = latest_key base symbols;
          (cached, self1) = FXCache_get self cache_key (now_get w);
          url = BASE_URL @ ''/latest'';
          params = [(''from'', base), (''to'', symbols)]
      in case cached of
           Some d \<Rightarrow> if d \<noteq> [] then (Inr d, self1, []) else fetch w self1 cache_key url params
         | None \<Rightarrow> fetch w self1 cache_key url params)"

definition upstream_calls :: "event list \<Rightarrow> nat" where
  "upstream_calls evs = length (filter (\<lambda>e. e \<noteq> FallbackLoad) evs)"

section \<open>main.py\<close>

text \<open>
  \<open>datetime.strptime(s, "%Y-%m-%d")\<close> is the standard library's: it is a parameter
  here, giving the text of the \<open>ValueError\<close> where it raises and the day's number
  otherwise.
\<close>

definition summary_body ::
  "env \<Rightarrow> FXCache \<Rightarrow> string \<Rightarrow> string \<Rightarrow> string
     \<Rightarrow> (py_exc + (string \<times> field) list) \<times> FXCache \<times> event list"
where
  \<comment> \<open>the body of the \<open>try\<close> statement, lines 106 to 136\<close>
  "summary_body w fx_client start end breakdown =
     (case get_range w fx_client start end ''EUR'' ''USD'' of
        (Inl e, c, evs) \<Rightarrow> (Inl e, c, evs)
      | (Inr rates_data, c, evs) \<Rightarrow>
          (case calculate_daily_metrics rates_data of
             Inl e \<Rightarrow> (Inl e, c, evs)
           | Inr daily_metrics \<Rightarrow>
               if daily_metrics = [] then
                 (Inl (HTTPException 404
                    ''No rate data available for the specified date range''), c, evs)
               else
                 (case calculate_totals daily_metrics of
                    Inl e \<Rightarrow> (Inl e, c, evs)
                  | Inr tot \<Rightarrow>
                      (Inr (format_response daily_metrics tot breakdown (Some start) (Some end)),
                       c, evs))))"

fun summary_handler :: "py_exc \<Rightarrow> py_exc" where
  \<comment> \<open>the \<open>except\<close> clauses, lines 138 to 145, in their order\<close>
  "summary_handler (ValueError msg) = HTTPException 503 msg"
| "summary_handler e = HTTPException 500 ''Internal server error processing FX data''"

definition get_summary ::
  "(string \<Rightarrow> string + int) \<Rightarrow> env \<Rightarrow> FXCache \<Rightarrow> string \<Rightarrow> string \<Rightarrow> string
     \<Rightarrow> (py_exc + (string \<times> field) list) \<times> FXCache \<times> event list"
where
  "get_summary strptime w fx_client start end breakdown =
     (case strptime start of
        Inl msg \<Rightarrow>
          (Inl (HTTPException 400 (''Invalid date format. Use YYYY-MM-DD: '' @ msg)),
           fx_client, [])
      | Inr start_dt \<Rightarrow>
          (case strptime end of
             Inl msg \<Rightarrow>
               (Inl (HTTPException 400 (''Invalid date format. Use YYYY-MM-DD: '' @ msg)),
                fx_client, [])
           | Inr end_dt \<Rightarrow>
               if end_dt < start_dt then
                 (Inl (HTTPException 400 ''Start date must be before or equal to end date''),
                  fx_client, [])
               else if breakdown \<noteq> ''day'' \<and> breakdown \<noteq> ''none'' then
                 (Inl (HTTPException 400 (''Breakdown must be 'day' or 'none'' @ [CHR 0x27])),
                  fx_client, [])
               else
                 (case summary_body w fx_client start end breakdown of
                    (Inl e, c, evs) \<Rightarrow> (Inl (summary_handler e), c, evs)
                  | (Inr response, c, evs) \<Rightarrow> (Inr response, c, evs))))"

section \<open>Vocabulary of the statements\<close>



definition spec_pct_change :: "rat \<Rightarrow> rat \<Rightarrow> rat option" where
  "spec_pct_change previous current =
     (if previous = 0 then None
      else Some (py_round (((current - previous) / previous) * 100) 4))"

fun spec_chain :: "rat option \<Rightarrow> (string \<times> rat) list \<Rightarrow> daily_metric list" where
  "spec_chain prev [] = []"
| "spec_chain prev ((d, c) # ps) =
     \<lparr>date = d, rate = py_round c 6,
      pct_change = (case prev of None \<Rightarrow> None | Some p \<Rightarrow> spec_pct_change p c)\<rparr>
     # spec_chain (Some c) ps"




text \<open>
  A call is served from the cache when the lookup finds a fresh entry that is truthy
  (\<open>if cached:\<close>). Two calls of \<open>get_range\<close> with the same parameters, one after the
  other on the same client, give their two results, the cache they leave and the
  events of both.
\<close>

definition served_from_cache :: "FXCache \<Rightarrow> string \<Rightarrow> int \<Rightarrow> bool" where
  "served_from_cache self key now =
     (case fst (FXCache_get self key now) of None \<Rightarrow> False | Some d \<Rightarrow> d \<noteq> [])"

definition get_range_twice ::
  "env \<Rightarrow> env \<Rightarrow> FXCache \<Rightarrow> string \<Rightarrow> string \<Rightarrow> string \<Rightarrow> string
     \<Rightarrow> (py_exc + pydict) \<times> (py_exc + pydict) \<times> FXCache \<times> event list"
where
  "get_range_twice w1 w2 self start_date end_date base symbols =
     (case get_range w1 self start_date end_date base symbols of
        (r1, self1, evs1) \<Rightarrow>
          (case get_range w2 self1 start_date end_date base symbols of
             (r2, self2, evs2) \<Rightarrow> (r1, r2, self2, evs1 @ evs2)))"

section \<open>Example inputs\<close>

text \<open>
  A series given out of order, whose middle date carries no \<open>USD\<close> entry, and the
  metrics computed from it.
\<close>

definition ex_gap_rates :: pydict where
  "ex_gap_rates =
     [(''2025-01-03'', JObj [(''USD'', JNum (6 / 5))]),
      (''2025-01-01'', JNum 1),
      (''2025-01-02'', JObj [(''GBP'', JNum (4 / 5))])]"

definition ex_gap :: pydict where
  "ex_gap = [(''base'', JStr ''EUR''), (''rates'', JObj ex_gap_rates)]"


text \<open>
  A series whose first rate is zero; the two-day series of the rounding laws, in the
  body that carries it, and its metrics; and a series of rates below half a millionth
  apart, whose emitted rates round to \<open>0\<close> and to a millionth.
\<close>

definition ex_zero_rates :: pydict where
  "ex_zero_rates = [(''2025-01-01'', JNum 0), (''2025-01-02'', JNum (3 / 2))]"

definition ex_zero :: pydict where
  "ex_zero = [(''rates'', JObj ex_zero_rates)]"


definition ex_two_day_rates :: pydict where
  "ex_two_day_rates = [(''2025-01-01'', JNum (11 / 10)), (''2025-01-02'', JNum (121 / 100))]"

definition ex_two_day :: pydict where
  "ex_two_day = [(''rates'', JObj ex_two_day_rates)]"



text \<open>
  Worlds for the client, with times in microseconds: the provider up at time 0; the
  provider up a minute later with other data; the provider down, with and without a
  readable fallback file; the provider down 400 seconds later; a body without rates.
  A cache of 300 seconds holding an entry stored at time 0.
\<close>

definition env_up :: env where
  "env_up = \<lparr>now_get = 0, now_set = 1000000,
             upstream = Inr ex_two_day, fallback_file = Inr ex_zero\<rparr>"

definition env_again :: env where
  "env_again = \<lparr>now_get = 60000000, now_set = 61000000,
                upstream = Inr ex_gap, fallback_file = Inr ex_zero\<rparr>"

definition env_down :: env where
  "env_down = \<lparr>now_get = 0, now_set = 1000000,
               upstream = Inl (UpstreamError ''ConnectTimeout''),
               fallback_file = Inr ex_zero\<rparr>"

definition env_dead :: env where
  "env_dead = \<lparr>now_get = 0, now_set = 1000000,
               upstream = Inl (UpstreamError ''ConnectTimeout''),
               fallback_file = Inl (UpstreamError ''FileNotFoundError'')\<rparr>"

definition env_down_late :: env where
  "env_down_late = \<lparr>now_get = 400000000, now_set = 401000000,
                    upstream = Inl (UpstreamError ''ConnectTimeout''),
                    fallback_file = Inr ex_zero\<rparr>"

definition env_no_rates :: env where
  "env_no_rates = \<lparr>now_get = 0, now_set = 1000000,
                   upstream = Inr [(''base'', JStr ''EUR''), (''rates'', JObj [])],
                   fallback_file = Inr ex_zero\<rparr>"

definition ex_key :: string where
  "ex_key = range_key ''2025-01-01'' ''2025-01-02'' ''EUR'' ''USD''"

definition cache_stale :: FXCache where
  "cache_stale = FXCache_set (FXCache_init 300) ex_key ex_two_day 0"

definition strptime_jan :: "string \<Rightarrow> string + int" where
  "strptime_jan s =
     (if s = ''2025-01-01'' then Inr 739252
      else if s = ''2025-01-02'' then Inr 739253
      else Inl ''time data does not match format'')"

section \<open>The loop of \<open>calculate_daily_metrics\<close>\<close>

lemma safe_pct_change_eq:
  "safe_pct_change p c = Inr (if p = 0 then None else Some (((c - p) / p) * 100))"
  by (simp add: safe_pct_change_def py_div_def)






lemma spec_chain_hd: "ps \<noteq> [] \<Longrightarrow> pct_change (hd (spec_chain None ps)) = None"
  by (cases ps) auto



lemma key_bound: "d \<in> set (dict_keys rates) \<Longrightarrow> \<exists>v. map_of rates d = Some v"
  by (cases "map_of rates d") (auto simp: dict_keys_def map_of_eq_None_iff)

lemma current_rate_key:
  "d \<in> set (dict_keys rates) \<Longrightarrow> \<exists>j. current_rate rates d = Inr j"
  by (auto simp: current_rate_def dict_getitem_def dest!: key_bound split: json.splits)













lemma calculate_totals_eq:
  "daily_metrics \<noteq> [] \<Longrightarrow>
     calculate_totals daily_metrics =
       Inr \<lparr>start_rate = Some (py_round (rate (hd daily_metrics)) 6),
            end_rate = Some (py_round (rate (last daily_metrics)) 6),
            total_pct_change =
              (if rate (hd daily_metrics) = 0 then None
               else Some (py_round
                 (((rate (last daily_metrics) - rate (hd daily_metrics))
                     / rate (hd daily_metrics)) * 100) 4)),
            mean_rate =
              Some (py_round
                (sum_list (map rate daily_metrics) / of_nat (length daily_metrics)) 6)\<rparr>"
  by (simp add: calculate_totals_def safe_pct_change_eq py_div_def Let_def)

section \<open>Dates in ISO form\<close>

















section \<open>Claims about the calculator\<close>




text \<open>
  C8. On an empty body, and on a body whose series is empty, the daily metrics are the
  empty sequence; the totals of no metrics have every field absent.
\<close>

theorem empty_input:
  "calculate_daily_metrics [] = Inr [] \<and>
   calculate_daily_metrics [(''rates'', JObj [])] = Inr [] \<and>
   calculate_totals [] =
     Inr \<lparr>start_rate = None, end_rate = None, total_pct_change = None, mean_rate = None\<rparr>"
  by (simp add: calculate_daily_metrics_def calculate_totals_def dict_getitem_def dict_keys_def)

text \<open>
  C9. With breakdown \<open>none\<close> the response has no \<open>daily\<close> key, whatever the metrics;
  with \<open>day\<close> it carries the whole sequence under that key; the totals are there in
  both.
\<close>

theorem format_response_breakdown:
  "map_of (format_response dm t ''none'' s e) ''daily'' = None \<and>
   ''daily'' \<notin> fst ` set (format_response dm t ''none'' s e) \<and>
   map_of (format_response dm t ''day'' s e) ''daily'' = Some (FDaily dm) \<and>
   map_of (format_response dm t ''none'' s e) ''totals'' = Some (FTotals t) \<and>
   map_of (format_response dm t ''day'' s e) ''totals'' = Some (FTotals t)"
  by (simp add: format_response_def)





section \<open>The cache and the client\<close>

lemma FXCache_get_fresh:
  "cache self key = Some (ts, v) \<Longrightarrow> now - ts < ttl self \<Longrightarrow>
     FXCache_get self key now = (Some v, self)"
  by (simp add: FXCache_get_def)

lemma FXCache_get_expired:
  "cache self key = Some (ts, v) \<Longrightarrow> ttl self \<le> now - ts \<Longrightarrow>
     FXCache_get self key now = (None, self\<lparr>cache := (cache self)(key := None)\<rparr>)"
  by (simp add: FXCache_get_def)

lemma FXCache_get_absent:
  "cache self key = None \<Longrightarrow> FXCache_get self key now = (None, self)"
  by (simp add: FXCache_get_def)

lemma FXCache_get_other:
  "k \<noteq> key \<Longrightarrow> cache (snd (FXCache_get self key now)) k = cache self k"
  by (simp add: FXCache_get_def split: option.splits prod.splits)

lemma FXCache_get_ttl: "ttl (snd (FXCache_get self key now)) = ttl self"
  by (simp add: FXCache_get_def split: option.splits prod.splits)

lemma FXCache_get_cases:
  "snd (FXCache_get self key now) = self \<or>
   (\<exists>ts v. cache self key = Some (ts, v) \<and> ttl self \<le> now - ts \<and>
      snd (FXCache_get self key now) = self\<lparr>cache := (cache self)(key := None)\<rparr>)"
  by (auto simp: FXCache_get_def split: option.splits prod.splits)

lemma get_range_miss:
  "\<not> served_from_cache self (range_key s e b q) (now_get w) \<Longrightarrow>
     get_range w self s e b q =
       fetch w (snd (FXCache_get self (range_key s e b q) (now_get w)))
         (range_key s e b q) (BASE_URL @ ''/'' @ s @ ''..'' @ e)
         [(''base'', b), (''symbols'', q)]"
  by (auto simp: get_range_def served_from_cache_def Let_def split: prod.splits option.splits)

lemma get_range_hit:
  "served_from_cache self (range_key s e b q) (now_get w) \<Longrightarrow>
     \<exists>d. fst (FXCache_get self (range_key s e b q) (now_get w)) = Some d \<and> d \<noteq> [] \<and>
       get_range w self s e b q =
         (Inr d, snd (FXCache_get self (range_key s e b q) (now_get w)), [])"
  by (auto simp: get_range_def served_from_cache_def Let_def split: prod.splits option.splits)

lemma get_latest_miss:
  "\<not> served_from_cache self (latest_key b q) (now_get w) \<Longrightarrow>
     get_latest w self b q =
       fetch w (snd (FXCache_get self (latest_key b q) (now_get w)))
         (latest_key b q) (BASE_URL @ ''/latest'') [(''from'', b), (''to'', q)]"
  by (auto simp: get_latest_def served_from_cache_def Let_def split: prod.splits option.splits)

lemma fetch_failure:
  "upstream w = Inl x \<Longrightarrow>
     fetch w self key url params = (load_fallback w, self, [UpstreamCall url params, FallbackLoad])"
  by (simp add: fetch_def)

lemma fetch_success:
  "upstream w = Inr d \<Longrightarrow>
     fetch w self key url params =
       (Inr d, FXCache_set self key d (now_set w), [UpstreamCall url params])"
  by (simp add: fetch_def)

section \<open>Claims about the cache and the client\<close>

text \<open>
  C4. \<open>FXCache.get\<close> returns the stored value, and leaves the cache as it is, while
  the entry is younger than the TTL; from the TTL on it returns nothing and deletes
  the entry. Eviction is lazy: a lookup of one key, and a store under it, leave every
  other key as it was, expired or not. A store stamps the entry with the time of the
  store. A call of \<open>get_range\<close> that finds an expired entry under its key issues an
  upstream call, and its result is the provider's answer (or the fallback) rather than
  the stale entry.
\<close>

theorem cache_ttl_expiry:
  "(cache self key = Some (ts, v) \<and> now - ts < ttl self \<longrightarrow>
      FXCache_get self key now = (Some v, self)) \<and>
   (cache self key = Some (ts, v) \<and> ttl self \<le> now - ts \<longrightarrow>
      FXCache_get self key now = (None, self\<lparr>cache := (cache self)(key := None)\<rparr>) \<and>
      cache (snd (FXCache_get self key now)) key = None) \<and>
   (k \<noteq> key \<longrightarrow>
      cache (snd (FXCache_get self key now)) k = cache self k \<and>
      cache (FXCache_set self key v now) k = cache self k) \<and>
   cache (FXCache_set self key v now) key = Some (now, v) \<and>
   (cache self (range_key s e b q) = Some (ts, v) \<and> ttl self \<le> now_get w - ts \<longrightarrow>
      upstream_calls (snd (snd (get_range w self s e b q))) = 1 \<and>
      fst (get_range w self s e b q) =
        (case upstream w of Inr d \<Rightarrow> Inr d | Inl x \<Rightarrow> load_fallback w))"
proof (intro conjI impI)
  assume a: "cache self (range_key s e b q) = Some (ts, v) \<and> ttl self \<le> now_get w - ts"
  then have "\<not> served_from_cache self (range_key s e b q) (now_get w)"
    by (simp add: served_from_cache_def FXCache_get_def)
  note m = get_range_miss [OF this]
  show "upstream_calls (snd (snd (get_range w self s e b q))) = 1"
    unfolding m by (simp add: fetch_def upstream_calls_def split: sum.splits)
  show "fst (get_range w self s e b q) =
        (case upstream w of Inr d \<Rightarrow> Inr d | Inl x \<Rightarrow> load_fallback w)"
    unfolding m by (simp add: fetch_def split: sum.splits)
qed (simp_all add: FXCache_get_def FXCache_set_def split: option.splits prod.splits)

theorem cache_ttl_expiry_witness:
  "cache cache_stale ex_key = Some (0, ex_two_day) \<and>
   60000000 - 0 < ttl cache_stale \<and>
   FXCache_get cache_stale ex_key 60000000 = (Some ex_two_day, cache_stale) \<and>
   ttl cache_stale \<le> 300000000 - 0 \<and>
   fst (FXCache_get cache_stale ex_key 300000000) = None \<and>
   cache (snd (FXCache_get cache_stale ex_key 300000000)) ex_key = None \<and>
   ''other'' \<noteq> ex_key \<and>
   cache (snd (FXCache_get cache_stale ex_key 300000000)) ''other'' = cache cache_stale ''other'' \<and>
   ttl cache_stale \<le> now_get env_down_late - 0 \<and>
   upstream_calls (snd (snd (get_range env_down_late cache_stale
      ''2025-01-01'' ''2025-01-02'' ''EUR'' ''USD''))) = 1 \<and>
   fst (get_range env_down_late cache_stale ''2025-01-01'' ''2025-01-02'' ''EUR'' ''USD'') =
     Inr ex_zero"
proof -
  have c: "cache cache_stale ex_key = Some (0, ex_two_day)"
    by (simp add: cache_stale_def FXCache_set_def)
  have t: "ttl cache_stale = 300000000"
    by (simp add: cache_stale_def FXCache_set_def FXCache_init_def)
  have k: "ex_key = range_key ''2025-01-01'' ''2025-01-02'' ''EUR'' ''USD''"
    by (simp add: ex_key_def)
  have o: "''other'' \<noteq> ex_key"
    by (simp add: ex_key_def range_key_def)
  have n: "now_get env_down_late = 400000000"
    by (simp add: env_down_late_def)
  have u: "upstream env_down_late = Inl (UpstreamError ''ConnectTimeout'')"
          "load_fallback env_down_late = Inr ex_zero"
    by (simp_all add: env_down_late_def load_fallback_def)
  note T1 = cache_ttl_expiry [of cache_stale ex_key 0 ex_two_day 60000000 "''other''"]
  note T2 = cache_ttl_expiry [of cache_stale ex_key 0 ex_two_day 300000000 "''other''"]
  note T3 = cache_ttl_expiry [of cache_stale ex_key 0 ex_two_day 300000000 "''other''"
              "''2025-01-01''" "''2025-01-02''" "''EUR''" "''USD''" env_down_late]
  from T1 c t have a1: "FXCache_get cache_stale ex_key 60000000 = (Some ex_two_day, cache_stale)"
    by simp
  from T2 c t have a2: "fst (FXCache_get cache_stale ex_key 300000000) = None"
    "cache (snd (FXCache_get cache_stale ex_key 300000000)) ex_key = None"
    by simp_all
  from T2 o have a3:
    "cache (snd (FXCache_get cache_stale ex_key 300000000)) ''other'' = cache cache_stale ''other''"
    by blast
  from T3 c t k n u have a4:
    "upstream_calls (snd (snd (get_range env_down_late cache_stale
      ''2025-01-01'' ''2025-01-02'' ''EUR'' ''USD''))) = 1"
    "fst (get_range env_down_late cache_stale ''2025-01-01'' ''2025-01-02'' ''EUR'' ''USD'') =
       Inr ex_zero"
    by simp_all
  from c t o n a1 a2 a3 a4 show ?thesis by simp
qed

text \<open>
  C5. When the upstream request fails on a call that is not served from the cache,
  \<open>get_range\<close> and \<open>get_latest\<close> issue that one request and no other, and return what
  loading the fallback file gives, whatever the upstream exception was: the contents of
  the file when it loads, and a \<open>ValueError\<close>, not an empty series, when it does not.
\<close>

theorem fallback_on_upstream_failure:
  "(upstream w = Inl x \<and> \<not> served_from_cache self (range_key s e b q) (now_get w) \<longrightarrow>
      fst (get_range w self s e b q) = load_fallback w \<and>
      snd (snd (get_range w self s e b q)) =
        [UpstreamCall (BASE_URL @ ''/'' @ s @ ''..'' @ e) [(''base'', b), (''symbols'', q)],
         FallbackLoad] \<and>
      upstream_calls (snd (snd (get_range w self s e b q))) = 1) \<and>
   (upstream w = Inl x \<and> \<not> served_from_cache self (latest_key b q) (now_get w) \<longrightarrow>
      fst (get_latest w self b q) = load_fallback w \<and>
      snd (snd (get_latest w self b q)) =
        [UpstreamCall (BASE_URL @ ''/latest'') [(''from'', b), (''to'', q)], FallbackLoad] \<and>
      upstream_calls (snd (snd (get_latest w self b q))) = 1) \<and>
   (fallback_file w = Inr d \<longrightarrow> load_fallback w = Inr d) \<and>
   (fallback_file w = Inl y \<longrightarrow> (\<exists>msg. load_fallback w = Inl (ValueError msg)))"
proof (intro conjI impI)
  assume a: "upstream w = Inl x \<and> \<not> served_from_cache self (range_key s e b q) (now_get w)"
  then have m: "get_range w self s e b q =
      (load_fallback w, snd (FXCache_get self (range_key s e b q) (now_get w)),
       [UpstreamCall (BASE_URL @ ''/'' @ s @ ''..'' @ e) [(''base'', b), (''symbols'', q)],
        FallbackLoad])"
    by (simp add: get_range_miss fetch_failure)
  show "fst (get_range w self s e b q) = load_fallback w"
    by (simp add: m)
  show "snd (snd (get_range w self s e b q)) =
        [UpstreamCall (BASE_URL @ ''/'' @ s @ ''..'' @ e) [(''base'', b), (''symbols'', q)],
         FallbackLoad]"
    by (simp add: m)
  show "upstream_calls (snd (snd (get_range w self s e b q))) = 1"
    by (simp add: m upstream_calls_def)
next
  assume a: "upstream w = Inl x \<and> \<not> served_from_cache self (latest_key b q) (now_get w)"
  then have m: "get_latest w self b q =
      (load_fallback w, snd (FXCache_get self (latest_key b q) (now_get w)),
       [UpstreamCall (BASE_URL @ ''/latest'') [(''from'', b), (''to'', q)], FallbackLoad])"
    by (simp add: get_latest_miss fetch_failure)
  show "fst (get_latest w self b q) = load_fallback w"
    by (simp add: m)
  show "snd (snd (get_latest w self b q)) =
        [UpstreamCall (BASE_URL @ ''/latest'') [(''from'', b), (''to'', q)], FallbackLoad]"
    by (simp add: m)
  show "upstream_calls (snd (snd (get_latest w self b q))) = 1"
    by (simp add: m upstream_calls_def)
qed (simp_all add: load_fallback_def)

theorem fallback_on_upstream_failure_witness:
  "upstream env_down = Inl (UpstreamError ''ConnectTimeout'') \<and>
   upstream env_dead = Inl (UpstreamError ''ConnectTimeout'') \<and>
   fallback_file env_down = Inr ex_zero \<and>
   fallback_file env_dead = Inl (UpstreamError ''FileNotFoundError'') \<and>
   fst (get_range env_down (FXCache_init 300) ''2025-01-01'' ''2025-01-02'' ''EUR'' ''USD'') =
     Inr ex_zero \<and>
   upstream_calls (snd (snd (get_range env_down (FXCache_init 300)
     ''2025-01-01'' ''2025-01-02'' ''EUR'' ''USD''))) = 1 \<and>
   fst (get_latest env_down (FXCache_init 300) ''EUR'' ''USD'') = Inr ex_zero \<and>
   fst (get_range env_dead (FXCache_init 300) ''2025-01-01'' ''2025-01-02'' ''EUR'' ''USD'') =
     load_fallback env_dead \<and>
   fst (get_range env_dead (FXCache_init 300) ''2025-01-01'' ''2025-01-02'' ''EUR'' ''USD'')
     \<noteq> Inr []"
proof -
  have u: "upstream env_down = Inl (UpstreamError ''ConnectTimeout'')"
          "upstream env_dead = Inl (UpstreamError ''ConnectTimeout'')"
    by (simp_all add: env_down_def env_dead_def)
  have f: "fallback_file env_down = Inr ex_zero"
          "fallback_file env_dead = Inl (UpstreamError ''FileNotFoundError'')"
    by (simp_all add: env_down_def env_dead_def)
  have n: "\<And>key now. \<not> served_from_cache (FXCache_init 300) key now"
    by (simp add: served_from_cache_def FXCache_get_def FXCache_init_def)
  note T1 = fallback_on_upstream_failure [of env_down "UpstreamError ''ConnectTimeout''"
              "FXCache_init 300"
              "''2025-01-01''" "''2025-01-02''" "''EUR''" "''USD''" ex_zero]
  note T2 = fallback_on_upstream_failure [of env_dead "UpstreamError ''ConnectTimeout''"
              "FXCache_init 300" "''2025-01-01''" "''2025-01-02''" "''EUR''" "''USD''" "[]"
              "UpstreamError ''FileNotFoundError''"]
  from T1 u(1) f(1) n have a:
    "fst (get_range env_down (FXCache_init 300) ''2025-01-01'' ''2025-01-02'' ''EUR'' ''USD'') =
       Inr ex_zero"
    "upstream_calls (snd (snd (get_range env_down (FXCache_init 300)
       ''2025-01-01'' ''2025-01-02'' ''EUR'' ''USD''))) = 1"
    "fst (get_latest env_down (FXCache_init 300) ''EUR'' ''USD'') = Inr ex_zero"
    by (simp_all add: upstream_calls_def)
  from T2 u(2) f(2) n obtain msg where b:
    "fst (get_range env_dead (FXCache_init 300) ''2025-01-01'' ''2025-01-02'' ''EUR'' ''USD'') =
       load_fallback env_dead"
    "load_fallback env_dead = Inl (ValueError msg)"
    by auto
  then have c:
    "fst (get_range env_dead (FXCache_init 300) ''2025-01-01'' ''2025-01-02'' ''EUR'' ''USD'')
       \<noteq> Inr []"
    by simp
  from u f a b(1) c show ?thesis by blast
qed

lemma served_after_store:
  "d \<noteq> [] \<Longrightarrow> now - t < ttl self \<Longrightarrow>
     FXCache_get (FXCache_set self key d t) key now = (Some d, FXCache_set self key d t)"
  by (simp add: FXCache_get_def FXCache_set_def)

lemma not_served_after_miss:
  "\<not> served_from_cache self key now \<Longrightarrow>
     \<not> served_from_cache (snd (FXCache_get self key now)) key now'"
  by (auto simp: served_from_cache_def FXCache_get_def split: option.splits prod.splits if_splits)

text \<open>
  C3. Two calls of \<open>get_range\<close> with the same parameters, the second within the TTL of
  the store of the first: when the first is not served from the cache and the provider
  answers it with a body that is not empty, the provider is called once in all, and
  both calls return that body, the second from the cache.
\<close>

theorem get_range_twice_cached:
  assumes "\<not> served_from_cache self (range_key s e b q) (now_get w1)"
    and "upstream w1 = Inr d"
    and "d \<noteq> []"
    and "now_get w2 - now_set w1 < ttl self"
  shows "\<exists>self2. get_range_twice w1 w2 self s e b q =
           (Inr d, Inr d, self2,
            [UpstreamCall (BASE_URL @ ''/'' @ s @ ''..'' @ e) [(''base'', b), (''symbols'', q)]]) \<and>
         upstream_calls (snd (snd (snd (get_range_twice w1 w2 self s e b q)))) = 1"
proof -
  let ?key = "range_key s e b q"
  let ?self0 = "snd (FXCache_get self ?key (now_get w1))"
  let ?self1 = "FXCache_set ?self0 ?key d (now_set w1)"
  let ?ev = "UpstreamCall (BASE_URL @ ''/'' @ s @ ''..'' @ e) [(''base'', b), (''symbols'', q)]"
  have first: "get_range w1 self s e b q = (Inr d, ?self1, [?ev])"
    using assms(1,2) by (simp add: get_range_miss fetch_success)
  have "ttl ?self0 = ttl self"
    by (rule FXCache_get_ttl)
  with assms(4) have "now_get w2 - now_set w1 < ttl ?self0"
    by simp
  from served_after_store [OF assms(3) this]
  have "FXCache_get ?self1 ?key (now_get w2) = (Some d, ?self1)" .
  with assms(3) have second: "get_range w2 ?self1 s e b q = (Inr d, ?self1, [])"
    by (simp add: get_range_def Let_def)
  have "get_range_twice w1 w2 self s e b q = (Inr d, Inr d, ?self1, [?ev])"
    by (simp add: get_range_twice_def first second)
  then show ?thesis
    by (simp add: upstream_calls_def)
qed

theorem get_range_twice_cached_witness:
  "\<not> served_from_cache (FXCache_init 300) ex_key (now_get env_up) \<and>
   upstream env_up = Inr ex_two_day \<and> ex_two_day \<noteq> [] \<and>
   now_get env_again - now_set env_up < ttl (FXCache_init 300) \<and>
   upstream env_again = Inr ex_gap \<and>
   fst (get_range_twice env_up env_again (FXCache_init 300)
          ''2025-01-01'' ''2025-01-02'' ''EUR'' ''USD'') = Inr ex_two_day \<and>
   fst (snd (get_range_twice env_up env_again (FXCache_init 300)
          ''2025-01-01'' ''2025-01-02'' ''EUR'' ''USD'')) = Inr ex_two_day \<and>
   upstream_calls (snd (snd (snd (get_range_twice env_up env_again (FXCache_init 300)
          ''2025-01-01'' ''2025-01-02'' ''EUR'' ''USD'')))) = 1"
proof -
  have h1: "\<not> served_from_cache (FXCache_init 300)
              (range_key ''2025-01-01'' ''2025-01-02'' ''EUR'' ''USD'') (now_get env_up)"
    by (simp add: served_from_cache_def FXCache_get_def FXCache_init_def)
  have h2: "upstream env_up = Inr ex_two_day"
    by (simp add: env_up_def)
  have h3: "ex_two_day \<noteq> []"
    by (simp add: ex_two_day_def)
  have h4: "now_get env_again - now_set env_up < ttl (FXCache_init 300)"
    by (simp add: env_again_def env_up_def FXCache_init_def)
  have h5: "upstream env_again = Inr ex_gap"
    by (simp add: env_again_def)
  from get_range_twice_cached [OF h1 h2 h3 h4] h1 h2 h3 h4 h5 show ?thesis
    by (auto simp: ex_key_def)
qed

text \<open>
  For any upstream response to the first call the property does not hold: when that
  response is a failure, the fallback is returned and nothing is stored, so the second
  call, a minute later, calls the provider again and returns other data.
\<close>

theorem get_range_twice_counterexample:
  "now_get env_again - now_set env_down < ttl (FXCache_init 300) \<and>
   fst (get_range_twice env_down env_again (FXCache_init 300)
          ''2025-01-01'' ''2025-01-02'' ''EUR'' ''USD'') = Inr ex_zero \<and>
   fst (snd (get_range_twice env_down env_again (FXCache_init 300)
          ''2025-01-01'' ''2025-01-02'' ''EUR'' ''USD'')) = Inr ex_gap \<and>
   ex_zero \<noteq> ex_gap \<and>
   upstream_calls (snd (snd (snd (get_range_twice env_down env_again (FXCache_init 300)
          ''2025-01-01'' ''2025-01-02'' ''EUR'' ''USD'')))) = 2"
  by code_simp

lemma fetch_upstream_calls:
  "upstream_calls (snd (snd (fetch w self key url params))) = 1"
  by (simp add: fetch_def upstream_calls_def split: sum.splits)

lemma fetch_failure_cache:
  "upstream w = Inl x \<Longrightarrow> fst (snd (fetch w self key url params)) = self"
  by (simp add: fetch_def)

text \<open>
  C10. When the upstream request of a call that is not served from the cache fails,
  the \<open>try\<close> statement stores nothing: the cache after the call is the cache as the
  lookup left it, which is the cache before the call, but for an expired entry under
  the request's key, which the lookup has evicted. Every other key is as it was, the
  key of the request holds nothing that a later lookup would serve, and the next call
  with the same parameters calls the provider again.
\<close>

theorem fallback_not_cached:
  "(upstream w = Inl x \<and> \<not> served_from_cache self (range_key s e b q) (now_get w) \<longrightarrow>
      fst (snd (get_range w self s e b q)) =
        snd (FXCache_get self (range_key s e b q) (now_get w)) \<and>
      (fst (snd (get_range w self s e b q)) = self \<or>
       (\<exists>ts v. cache self (range_key s e b q) = Some (ts, v) \<and> ttl self \<le> now_get w - ts \<and>
          fst (snd (get_range w self s e b q)) =
            self\<lparr>cache := (cache self)(range_key s e b q := None)\<rparr>)) \<and>
      (k \<noteq> range_key s e b q \<longrightarrow>
         cache (fst (snd (get_range w self s e b q))) k = cache self k) \<and>
      \<not> served_from_cache (fst (snd (get_range w self s e b q))) (range_key s e b q) now' \<and>
      upstream_calls
        (snd (snd (get_range w' (fst (snd (get_range w self s e b q))) s e b q))) = 1) \<and>
   (upstream w = Inl x \<and> \<not> served_from_cache self (latest_key b q) (now_get w) \<longrightarrow>
      fst (snd (get_latest w self b q)) =
        snd (FXCache_get self (latest_key b q) (now_get w)) \<and>
      (fst (snd (get_latest w self b q)) = self \<or>
       (\<exists>ts v. cache self (latest_key b q) = Some (ts, v) \<and> ttl self \<le> now_get w - ts \<and>
          fst (snd (get_latest w self b q)) =
            self\<lparr>cache := (cache self)(latest_key b q := None)\<rparr>)) \<and>
      (k \<noteq> latest_key b q \<longrightarrow>
         cache (fst (snd (get_latest w self b q))) k = cache self k) \<and>
      \<not> served_from_cache (fst (snd (get_latest w self b q))) (latest_key b q) now' \<and>
      upstream_calls
        (snd (snd (get_latest w' (fst (snd (get_latest w self b q))) b q))) = 1)"
proof (intro conjI impI)
  let ?key = "range_key s e b q"
  let ?self' = "snd (FXCache_get self ?key (now_get w))"
  assume a: "upstream w = Inl x \<and> \<not> served_from_cache self ?key (now_get w)"
  then have m: "fst (snd (get_range w self s e b q)) = ?self'"
    by (simp add: get_range_miss fetch_failure_cache)
  show "fst (snd (get_range w self s e b q)) = ?self'"
    by (rule m)
  show "fst (snd (get_range w self s e b q)) = self \<or>
       (\<exists>ts v. cache self ?key = Some (ts, v) \<and> ttl self \<le> now_get w - ts \<and>
          fst (snd (get_range w self s e b q)) = self\<lparr>cache := (cache self)(?key := None)\<rparr>)"
    unfolding m by (rule FXCache_get_cases)
  show "cache (fst (snd (get_range w self s e b q))) k = cache self k" if "k \<noteq> ?key"
    unfolding m using that by (rule FXCache_get_other)
  from a have n: "\<And>t. \<not> served_from_cache ?self' ?key t"
    by (simp add: not_served_after_miss)
  show "\<not> served_from_cache (fst (snd (get_range w self s e b q))) ?key now'"
    unfolding m by (rule n)
  show "upstream_calls
        (snd (snd (get_range w' (fst (snd (get_range w self s e b q))) s e b q))) = 1"
    unfolding m by (simp add: get_range_miss [OF n] fetch_upstream_calls)
next
  let ?key = "latest_key b q"
  let ?self' = "snd (FXCache_get self ?key (now_get w))"
  assume a: "upstream w = Inl x \<and> \<not> served_from_cache self ?key (now_get w)"
  then have m: "fst (snd (get_latest w self b q)) = ?self'"
    by (simp add: get_latest_miss fetch_failure_cache)
  show "fst (snd (get_latest w self b q)) = ?self'"
    by (rule m)
  show "fst (snd (get_latest w self b q)) = self \<or>
       (\<exists>ts v. cache self ?key = Some (ts, v) \<and> ttl self \<le> now_get w - ts \<and>
          fst (snd (get_latest w self b q)) = self\<lparr>cache := (cache self)(?key := None)\<rparr>)"
    unfolding m by (rule FXCache_get_cases)
  show "cache (fst (snd (get_latest w self b q))) k = cache self k" if "k \<noteq> ?key"
    unfolding m using that by (rule FXCache_get_other)
  from a have n: "\<And>t. \<not> served_from_cache ?self' ?key t"
    by (simp add: not_served_after_miss)
  show "\<not> served_from_cache (fst (snd (get_latest w self b q))) ?key now'"
    unfolding m by (rule n)
  show "upstream_calls
        (snd (snd (get_latest w' (fst (snd (get_latest w self b q))) b q))) = 1"
    unfolding m by (simp add: get_latest_miss [OF n] fetch_upstream_calls)
qed

theorem fallback_not_cached_witness:
  "upstream env_down = Inl (UpstreamError ''ConnectTimeout'') \<and>
   \<not> served_from_cache (FXCache_init 300)
       (range_key ''2025-01-01'' ''2025-01-02'' ''EUR'' ''USD'') (now_get env_down) \<and>
   \<not> served_from_cache (FXCache_init 300) (latest_key ''EUR'' ''USD'') (now_get env_down) \<and>
   fst (snd (get_range env_down (FXCache_init 300)
     ''2025-01-01'' ''2025-01-02'' ''EUR'' ''USD'')) = FXCache_init 300 \<and>
   fst (snd (get_latest env_down (FXCache_init 300) ''EUR'' ''USD'')) = FXCache_init 300 \<and>
   upstream_calls (snd (snd (get_range env_again
     (fst (snd (get_range env_down (FXCache_init 300)
        ''2025-01-01'' ''2025-01-02'' ''EUR'' ''USD'')))
     ''2025-01-01'' ''2025-01-02'' ''EUR'' ''USD''))) = 1"
proof -
  have u: "upstream env_down = Inl (UpstreamError ''ConnectTimeout'')"
    by (simp add: env_down_def)
  have n: "\<And>key now. \<not> served_from_cache (FXCache_init 300) key now"
    by (simp add: served_from_cache_def FXCache_get_def FXCache_init_def)
  have g: "\<And>key now. snd (FXCache_get (FXCache_init 300) key now) = FXCache_init 300"
    by (simp add: FXCache_get_def FXCache_init_def)
  note T = fallback_not_cached [of env_down "UpstreamError ''ConnectTimeout''"
             "FXCache_init 300" "''2025-01-01''" "''2025-01-02''" "''EUR''" "''USD''"
             "''other''" 0 env_again]
  from T u n have a:
    "fst (snd (get_range env_down (FXCache_init 300)
       ''2025-01-01'' ''2025-01-02'' ''EUR'' ''USD'')) =
     snd (FXCache_get (FXCache_init 300)
       (range_key ''2025-01-01'' ''2025-01-02'' ''EUR'' ''USD'') (now_get env_down))"
    "fst (snd (get_latest env_down (FXCache_init 300) ''EUR'' ''USD'')) =
     snd (FXCache_get (FXCache_init 300) (latest_key ''EUR'' ''USD'') (now_get env_down))"
    "upstream_calls (snd (snd (get_range env_again
       (fst (snd (get_range env_down (FXCache_init 300)
          ''2025-01-01'' ''2025-01-02'' ''EUR'' ''USD'')))
       ''2025-01-01'' ''2025-01-02'' ''EUR'' ''USD''))) = 1"
    by blast+
  from u n a g show ?thesis by simp
qed

text \<open>
  The cache is not always left as it was: where it holds an expired entry under the
  key of the request, the call is served by the fallback, and the entry is gone.
\<close>

theorem fallback_cache_counterexample:
  "upstream env_down_late = Inl (UpstreamError ''ConnectTimeout'') \<and>
   fst (get_range env_down_late cache_stale ''2025-01-01'' ''2025-01-02'' ''EUR'' ''USD'') =
     Inr ex_zero \<and>
   cache cache_stale (range_key ''2025-01-01'' ''2025-01-02'' ''EUR'' ''USD'') =
     Some (0, ex_two_day) \<and>
   cache (fst (snd (get_range env_down_late cache_stale
      ''2025-01-01'' ''2025-01-02'' ''EUR'' ''USD'')))
     (range_key ''2025-01-01'' ''2025-01-02'' ''EUR'' ''USD'') = None"
  by (simp add: env_down_late_def cache_stale_def ex_key_def get_range_def FXCache_get_def
        FXCache_set_def FXCache_init_def fetch_def load_fallback_def Let_def)

section \<open>Claims about the endpoint\<close>

lemma summary_handler_not_404: "summary_handler e \<noteq> HTTPException 404 msg"
  by (cases e) simp_all

lemma get_summary_never_404:
  "fst (get_summary strptime w self start end breakdown) \<noteq> Inl (HTTPException 404 msg)"
  by (auto simp: get_summary_def summary_handler_not_404 split: sum.splits prod.splits)

lemma calculate_totals_returns: "\<exists>t. calculate_totals daily_metrics = Inr t"
proof (cases "daily_metrics = []")
  case True
  then show ?thesis by (simp add: calculate_totals_def)
next
  case False
  then show ?thesis by (simp add: calculate_totals_eq)
qed

lemma get_summary_valid:
  assumes "strptime start = Inr a" and "strptime end = Inr b" and "a \<le> b"
    and "breakdown = ''day'' \<or> breakdown = ''none''"
  shows "fst (get_summary strptime w self start end breakdown) =
           (case fst (summary_body w self start end breakdown) of
              Inl e \<Rightarrow> Inl (summary_handler e)
            | Inr response \<Rightarrow> Inr response)"
  using assms by (auto simp: get_summary_def split: sum.splits prod.splits)

lemma summary_body_unavailable:
  "fst (get_range w self start end ''EUR'' ''USD'') = Inl e \<Longrightarrow>
     fst (summary_body w self start end breakdown) = Inl e"
  by (auto simp: summary_body_def split: sum.splits prod.splits)

lemma summary_body_empty:
  "fst (get_range w self start end ''EUR'' ''USD'') = Inr rates_data \<Longrightarrow>
   calculate_daily_metrics rates_data = Inr [] \<Longrightarrow>
     fst (summary_body w self start end breakdown) =
       Inl (HTTPException 404 ''No rate data available for the specified date range'')"
  by (auto simp: summary_body_def split: sum.splits prod.splits)

lemma summary_body_failure:
  "fst (get_range w self start end ''EUR'' ''USD'') = Inr rates_data \<Longrightarrow>
   calculate_daily_metrics rates_data = Inl e \<Longrightarrow>
     fst (summary_body w self start end breakdown) = Inl e"
  by (auto simp: summary_body_def split: sum.splits prod.splits)

text \<open>
  C1. The service-unavailable and the server-error parts hold: a \<open>ValueError\<close> of the
  client becomes status 503 and a failure of the calculator becomes status 500. The
  not-found part does not: the \<open>HTTPException\<close> of status 404 is raised inside the
  \<open>try\<close> statement, whose \<open>except Exception\<close> clause catches it and raises status 500
  in its place. On a body without rates the \<open>try\<close> body raises 404 and the endpoint
  answers 500, and no request at all is answered with 404.
\<close>

theorem summary_not_found_masked:
  "fst (summary_body env_no_rates (FXCache_init 300) ''2025-01-01'' ''2025-01-02'' ''day'') =
     Inl (HTTPException 404 ''No rate data available for the specified date range'') \<and>
   fst (get_summary strptime_jan env_no_rates (FXCache_init 300)
          ''2025-01-01'' ''2025-01-02'' ''day'') =
     Inl (HTTPException 500 ''Internal server error processing FX data'') \<and>
   fst (get_summary strptime w self start end breakdown) \<noteq> Inl (HTTPException 404 msg) \<and>
   summary_handler (ValueError msg) = HTTPException 503 msg \<and>
   summary_handler TypeError = HTTPException 500 ''Internal server error processing FX data''"
proof (intro conjI)
  have g: "fst (get_range env_no_rates (FXCache_init 300)
                  ''2025-01-01'' ''2025-01-02'' ''EUR'' ''USD'') =
             Inr [(''base'', JStr ''EUR''), (''rates'', JObj [])]"
    by (simp add: get_range_def FXCache_get_def FXCache_init_def fetch_def env_no_rates_def
          Let_def)
  have c: "calculate_daily_metrics [(''base'', JStr ''EUR''), (''rates'', JObj [])] = Inr []"
    by (simp add: calculate_daily_metrics_def dict_getitem_def dict_keys_def)
  show b: "fst (summary_body env_no_rates (FXCache_init 300)
                  ''2025-01-01'' ''2025-01-02'' ''day'') =
     Inl (HTTPException 404 ''No rate data available for the specified date range'')"
    by (rule summary_body_empty [OF g c])
  have p: "strptime_jan ''2025-01-01'' = Inr 739252" "strptime_jan ''2025-01-02'' = Inr 739253"
    by (simp_all add: strptime_jan_def)
  from get_summary_valid [of strptime_jan "''2025-01-01''" 739252 "''2025-01-02''" 739253
         "''day''" env_no_rates "FXCache_init 300"] p b
  show "fst (get_summary strptime_jan env_no_rates (FXCache_init 300)
          ''2025-01-01'' ''2025-01-02'' ''day'') =
     Inl (HTTPException 500 ''Internal server error processing FX data'')"
    by simp
  show "fst (get_summary strptime w self start end breakdown) \<noteq> Inl (HTTPException 404 msg)"
    by (rule get_summary_never_404)
qed simp_all

end
